theory Spec2Isabelle
  imports Complex_Main
begin

section \<open>Numbers\<close>

text \<open>
  The controllers of \<^verbatim>\<open>pid_wpt_tracker.py\<close> compute on Python and numpy floats,
  which are IEEE binary64 numbers.  A float is modelled as a real number, as one of the two
  infinities, or as NaN.  An arithmetic result is rounded by \<open>round64\<close>: it overflows to an
  infinity from \<open>2^1024 - 2^970\<close> on (the largest float plus half a unit in its last
  place), it underflows to zero up to \<open>2^-1075\<close> (half the smallest float), and in between
  it keeps its exact value.  So the model has the overflow and the underflow of binary64
  at their thresholds; the rounding of the mantissa to 53 bits is not modelled, nor is the
  sign of zero.  The general theorems below use of \<open>round64\<close> only that it never yields
  NaN, that it maps 0 to 0, and that it is idempotent, which the rounding of binary64 has
  too.

  The samples of both buffers are Python floats (a difference of the host's speeds, a
  result of \<^verbatim>\<open>math.acos\<close>), and so is \<^verbatim>\<open>_dt\<close>: the division by
  \<^verbatim>\<open>_dt\<close> is Python's, which raises on a zero divisor.  The quotient of the bearing
  is numpy's, which does not raise.  The inputs of the program (gains, time steps,
  positions, headings and speeds) are finite; the bounds of the output range may be
  infinite.
\<close>

datatype pyfloat = Fin real | PInf | NInf | NaN

datatype pyerror = ZeroDivisionError | ValueError

definition overflow_threshold :: real where
  "overflow_threshold = 2 ^ 1024 - 2 ^ 970"

definition underflow_threshold :: real where
  "underflow_threshold = 1 / 2 ^ 1075"

definition round64 :: "real \<Rightarrow> pyfloat" where
  "round64 x =
     (if overflow_threshold \<le> x then PInf
      else if x \<le> - overflow_threshold then NInf
      else if \<bar>x\<bar> \<le> underflow_threshold then Fin 0
      else Fin x)"


text \<open>The comparisons \<^verbatim>\<open><=\<close> and \<^verbatim>\<open><\<close> of floats: false as soon as one side
  is NaN.\<close>

fun fle :: "pyfloat \<Rightarrow> pyfloat \<Rightarrow> bool" where
  "fle NaN _ = False"
| "fle _ NaN = False"
| "fle NInf _ = True"
| "fle _ PInf = True"
| "fle (Fin a) (Fin b) = (a \<le> b)"
| "fle _ _ = False"

definition fless :: "pyfloat \<Rightarrow> pyfloat \<Rightarrow> bool" where
  "fless a b = (fle a b \<and> a \<noteq> b)"

fun fneg :: "pyfloat \<Rightarrow> pyfloat" where
  "fneg (Fin a) = Fin (- a)"
| "fneg PInf = NInf"
| "fneg NInf = PInf"
| "fneg NaN = NaN"

fun fadd :: "pyfloat \<Rightarrow> pyfloat \<Rightarrow> pyfloat" where
  "fadd NaN _ = NaN"
| "fadd _ NaN = NaN"
| "fadd (Fin a) (Fin b) = round64 (a + b)"
| "fadd PInf NInf = NaN"
| "fadd NInf PInf = NaN"
| "fadd PInf _ = PInf"
| "fadd _ PInf = PInf"
| "fadd NInf _ = NInf"
| "fadd _ NInf = NInf"

definition fsub :: "pyfloat \<Rightarrow> pyfloat \<Rightarrow> pyfloat" where
  "fsub a b = fadd a (fneg b)"

text \<open>The sign of an infinite product; zero times infinity is NaN.\<close>

definition inf_times :: "bool \<Rightarrow> real \<Rightarrow> pyfloat" where
  "inf_times positive r =
     (if r = 0 then NaN else if (0 < r) = positive then PInf else NInf)"

fun fmul :: "pyfloat \<Rightarrow> pyfloat \<Rightarrow> pyfloat" where
  "fmul NaN _ = NaN"
| "fmul _ NaN = NaN"
| "fmul (Fin a) (Fin b) = round64 (a * b)"
| "fmul PInf (Fin b) = inf_times True b"
| "fmul NInf (Fin b) = inf_times False b"
| "fmul (Fin a) PInf = inf_times True a"
| "fmul (Fin a) NInf = inf_times False a"
| "fmul PInf PInf = PInf"
| "fmul NInf NInf = PInf"
| "fmul PInf NInf = NInf"
| "fmul NInf PInf = NInf"

text \<open>
  The division of binary64, as numpy's \<^verbatim>\<open>/\<close> on \<^verbatim>\<open>float64\<close> performs it: no
  exception; a zero divisor yields NaN under a zero dividend and an infinity otherwise; a
  finite value over an infinity is zero, an infinity over an infinity is NaN.
\<close>

fun fdiv :: "pyfloat \<Rightarrow> pyfloat \<Rightarrow> pyfloat" where
  "fdiv NaN _ = NaN"
| "fdiv _ NaN = NaN"
| "fdiv (Fin a) (Fin b) =
     (if b = 0 then (if a = 0 then NaN else if 0 < a then PInf else NInf)
      else round64 (a / b))"
| "fdiv PInf (Fin b) = (if b < 0 then NInf else PInf)"
| "fdiv NInf (Fin b) = (if b < 0 then PInf else NInf)"
| "fdiv (Fin a) _ = Fin 0"
| "fdiv _ _ = NaN"

text \<open>
  Python's \<^verbatim>\<open>a / b\<close> on floats: a zero divisor raises, whatever the dividend;
  otherwise it is the division of binary64.
\<close>

definition py_truediv :: "pyfloat \<Rightarrow> pyfloat \<Rightarrow> pyerror + pyfloat" where
  "py_truediv a b = (if b = Fin 0 then Inl ZeroDivisionError else Inr (fdiv a b))"

text \<open>
  \<^verbatim>\<open>np.clip(a, a_min, a_max)\<close> is \<^verbatim>\<open>np.minimum(a_max, np.maximum(a, a_min))\<close>,
  and both propagate NaN.
\<close>

definition np_maximum :: "pyfloat \<Rightarrow> pyfloat \<Rightarrow> pyfloat" where
  "np_maximum a b = (if a = NaN \<or> b = NaN then NaN else if fle a b then b else a)"

definition np_minimum :: "pyfloat \<Rightarrow> pyfloat \<Rightarrow> pyfloat" where
  "np_minimum a b = (if a = NaN \<or> b = NaN then NaN else if fle a b then a else b)"

definition np_clip :: "pyfloat \<Rightarrow> pyfloat \<Rightarrow> pyfloat \<Rightarrow> pyfloat" where
  "np_clip a a_min a_max = np_minimum a_max (np_maximum a a_min)"

text \<open>The square root of numpy: NaN below zero.\<close>

fun np_sqrt :: "pyfloat \<Rightarrow> pyfloat" where
  "np_sqrt (Fin x) = (if x < 0 then NaN else round64 (sqrt x))"
| "np_sqrt PInf = PInf"
| "np_sqrt _ = NaN"

text \<open>\<^verbatim>\<open>math.cos\<close> and \<^verbatim>\<open>math.sin\<close> of a finite angle.\<close>

definition math_cos :: "real \<Rightarrow> pyfloat" where
  "math_cos x = round64 (cos x)"

definition math_sin :: "real \<Rightarrow> pyfloat" where
  "math_sin x = round64 (sin x)"

text \<open>
  \<^verbatim>\<open>math.acos\<close>: NaN in, NaN out; an argument outside \<open>[-1, 1]\<close> raises.
\<close>

fun math_acos :: "pyfloat \<Rightarrow> pyerror + pyfloat" where
  "math_acos (Fin x) =
     (if -1 \<le> x \<and> x \<le> 1 then Inr (round64 (arccos x)) else Inl ValueError)"
| "math_acos NaN = Inr NaN"
| "math_acos _ = Inl ValueError"

text \<open>Python's \<^verbatim>\<open>sum\<close>: a left fold from the integer 0.\<close>

definition py_sum :: "pyfloat list \<Rightarrow> pyfloat" where
  "py_sum xs = foldl fadd (Fin 0) xs"

section \<open>The error buffer\<close>

text \<open>
  Both controllers keep their errors in a \<^verbatim>\<open>deque(maxlen=10)\<close>.  Appending to a
  bounded deque adds the item on the right and, when the deque has grown beyond
  \<^verbatim>\<open>maxlen\<close>, drops one item on the left.
\<close>

definition maxlen :: nat where
  "maxlen = 10"

definition deque_append :: "'a list \<Rightarrow> 'a \<Rightarrow> 'a list" where
  "deque_append d x = (let d' = d @ [x] in if length d' > maxlen then tl d' else d')"

text \<open>
  Lines 125 to 130 (and 195 to 200): the derivative and integral estimates, taken from the
  buffer after the append.  \<^verbatim>\<open>buf[-1]\<close> and \<^verbatim>\<open>buf[-2]\<close> are read only when
  the buffer holds two samples, so both indices are in range.  The division is Python's:
  the derivative is computed first and a zero \<^verbatim>\<open>_dt\<close> raises there.
\<close>

definition de_ie :: "pyfloat list \<Rightarrow> real \<Rightarrow> pyerror + (pyfloat \<times> pyfloat)" where
  "de_ie buf dt =
     (if length buf \<ge> 2 then
        (case py_truediv (fsub (buf ! (length buf - 1)) (buf ! (length buf - 2))) (Fin dt) of
           Inl e \<Rightarrow> Inl e
         | Inr de \<Rightarrow> Inr (de, fmul (py_sum buf) (Fin dt)))
      else Inr (Fin 0, Fin 0))"

text \<open>
  Lines 131 and 202: the weighted sum of the three terms, clipped to the output range.
\<close>

definition pid_raw :: "real \<Rightarrow> real \<Rightarrow> real \<Rightarrow> pyfloat \<Rightarrow> pyfloat \<Rightarrow> pyfloat \<Rightarrow> pyfloat" where
  "pid_raw kp kd ki e de ie =
     fadd (fadd (fmul (Fin kp) e) (fmul (Fin kd) de)) (fmul (Fin ki) ie)"

definition pid_output ::
  "real \<Rightarrow> real \<Rightarrow> real \<Rightarrow> pyfloat \<Rightarrow> pyfloat \<Rightarrow> pyfloat \<Rightarrow> pyfloat \<Rightarrow> pyfloat \<Rightarrow> pyfloat" where
  "pid_output kp kd ki e de ie out_min out_max =
     np_clip (pid_raw kp kd ki e de ie) out_min out_max"

section \<open>The longitudinal controller\<close>

record lon_controller =
  lon_K_P :: real
  lon_K_D :: real
  lon_K_I :: real
  lon_output_max :: pyfloat
  lon_output_min :: pyfloat
  lon_dt :: real
  lon_error_buffer :: "pyfloat list"

text \<open>
  \<^verbatim>\<open>PIDLongitudinalController.__init__\<close> stores its arguments and creates an empty
  buffer.  It has no check and no \<^verbatim>\<open>raise\<close>.
\<close>

definition lon_init ::
  "real \<Rightarrow> real \<Rightarrow> real \<Rightarrow> pyfloat \<Rightarrow> pyfloat \<Rightarrow> real \<Rightarrow> lon_controller" where
  "lon_init K_P K_D K_I output_max output_min dt =
     \<lparr>lon_K_P = K_P, lon_K_D = K_D, lon_K_I = K_I,
      lon_output_max = output_max, lon_output_min = output_min,
      lon_dt = dt, lon_error_buffer = []\<rparr>"

definition lon_reset :: "lon_controller \<Rightarrow> lon_controller" where
  "lon_reset c = c\<lparr>lon_error_buffer := []\<rparr>"

definition lon_change_parameters ::
  "lon_controller \<Rightarrow> real \<Rightarrow> real \<Rightarrow> real \<Rightarrow> real \<Rightarrow> lon_controller" where
  "lon_change_parameters c K_P K_I K_D dt =
     c\<lparr>lon_K_P := K_P, lon_K_I := K_I, lon_K_D := K_D, lon_dt := dt\<rparr>"

text \<open>
  \<^verbatim>\<open>_pid_control\<close>: the buffer is appended to before anything can raise, so the
  controller returned beside an error already holds the new sample.
\<close>

definition lon_pid_control ::
  "lon_controller \<Rightarrow> real \<Rightarrow> real \<Rightarrow> lon_controller \<times> (pyerror + pyfloat)" where
  "lon_pid_control c current_speed target_speed =
     (let error = fsub (Fin target_speed) (Fin current_speed);
          c' = c\<lparr>lon_error_buffer := deque_append (lon_error_buffer c) error\<rparr>
      in case de_ie (lon_error_buffer c') (lon_dt c') of
           Inl e \<Rightarrow> (c', Inl e)
         | Inr (de, ie) \<Rightarrow>
             (c', Inr (pid_output (lon_K_P c') (lon_K_D c') (lon_K_I c') error de ie
                         (lon_output_min c') (lon_output_max c'))))"

definition lon_run_step ::
  "lon_controller \<Rightarrow> real \<Rightarrow> real \<Rightarrow> lon_controller \<times> (pyerror + pyfloat)" where
  "lon_run_step c current_speed target_speed = lon_pid_control c current_speed target_speed"


section \<open>The lateral controller\<close>

text \<open>
  The vehicle location handed to the lateral controller is the tuple
  \<^verbatim>\<open>(x, y, heading_angle)\<close>; a waypoint is a point of the trajectory, read at the
  indices 0, 1 (its position) and 3 (its target speed).  Positions, headings and speeds are
  finite numbers.
\<close>

record waypoint =
  wp_x :: real
  wp_y :: real
  wp_heading :: real
  wp_target_speed :: real

text \<open>
  The two vectors of the lateral controller are numpy arrays of three floats.  The
  position of the waypoint relative to the vehicle is a difference of finite numbers and
  can overflow.  \<^verbatim>\<open>np.linalg.norm\<close> of a vector is the square root of its dot product
  with itself.
\<close>

type_synonym vec3 = "pyfloat \<times> pyfloat \<times> pyfloat"

definition np_dot :: "vec3 \<Rightarrow> vec3 \<Rightarrow> pyfloat" where
  "np_dot a b =
     (case a of (a0, a1, a2) \<Rightarrow> case b of (b0, b1, b2) \<Rightarrow>
        fadd (fadd (fmul a0 b0) (fmul a1 b1)) (fmul a2 b2))"

definition np_norm3 :: "vec3 \<Rightarrow> pyfloat" where
  "np_norm3 a = np_sqrt (np_dot a a)"

text \<open>
  The tracker compares the norm of a pair of differences with the look-ahead distance; no
  statement below depends on how that norm is computed, and it is kept as the real number.
\<close>

definition np_norm2 :: "real \<times> real \<Rightarrow> real" where
  "np_norm2 a = (case a of (a0, a1) \<Rightarrow> sqrt (a0\<^sup>2 + a1\<^sup>2))"

text \<open>The third component of \<^verbatim>\<open>np.cross(a, b)\<close>.\<close>

definition np_cross_z :: "vec3 \<Rightarrow> vec3 \<Rightarrow> pyfloat" where
  "np_cross_z a b =
     (case a of (a0, a1, a2) \<Rightarrow> case b of (b0, b1, b2) \<Rightarrow>
        fsub (fmul a0 b1) (fmul a1 b0))"

record lat_controller =
  lat_K_P :: real
  lat_K_D :: real
  lat_K_I :: real
  lat_output_max :: pyfloat
  lat_output_min :: pyfloat
  lat_dt :: real
  lat_e_buffer :: "pyfloat list"
  lat_error :: "pyfloat list"

definition lat_init ::
  "real \<Rightarrow> real \<Rightarrow> real \<Rightarrow> pyfloat \<Rightarrow> pyfloat \<Rightarrow> real \<Rightarrow> lat_controller" where
  "lat_init K_P K_D K_I output_max output_min dt =
     \<lparr>lat_K_P = K_P, lat_K_D = K_D, lat_K_I = K_I,
      lat_output_max = output_max, lat_output_min = output_min,
      lat_dt = dt, lat_e_buffer = [], lat_error = []\<rparr>"

text \<open>\<^verbatim>\<open>PIDLateralController.reset\<close> has one statement: a new, empty deque.\<close>

definition lat_reset :: "lat_controller \<Rightarrow> lat_controller" where
  "lat_reset c = c\<lparr>lat_e_buffer := []\<rparr>"

definition lat_change_parameters ::
  "lat_controller \<Rightarrow> real \<Rightarrow> real \<Rightarrow> real \<Rightarrow> real \<Rightarrow> lat_controller" where
  "lat_change_parameters c K_P K_I K_D dt =
     c\<lparr>lat_K_P := K_P, lat_K_I := K_I, lat_K_D := K_D, lat_dt := dt\<rparr>"

text \<open>
  Lines 184 to 191: the signed angle between the heading and the bearing of the waypoint.
  The quotient is numpy's (both \<^verbatim>\<open>np.dot\<close> and \<^verbatim>\<open>np.linalg.norm\<close> return
  \<^verbatim>\<open>float64\<close>), so a zero divisor does not raise here.
\<close>

definition bearing_error :: "real \<times> real \<times> real \<Rightarrow> waypoint \<Rightarrow> pyerror + pyfloat" where
  "bearing_error vehicle_location wp =
     (case vehicle_location of (x, y, heading) \<Rightarrow>
        let v_vec = (math_cos heading, math_sin heading, Fin 0);
            w_vec = (fsub (Fin (wp_x wp)) (Fin x), fsub (Fin (wp_y wp)) (Fin y), Fin 0)
        in (case math_acos (np_clip (fdiv (np_dot w_vec v_vec)
                                        (fmul (np_norm3 w_vec) (np_norm3 v_vec)))
                              (Fin (-1)) (Fin 1)) of
              Inl e \<Rightarrow> Inl e
            | Inr d \<Rightarrow>
                Inr (if fless (np_cross_z v_vec w_vec) (Fin 0) then fmul d (Fin (-1))
                     else d)))"

text \<open>
  \<^verbatim>\<open>_pid_control\<close>: an error of \<^verbatim>\<open>math.acos\<close> leaves the controller as it was;
  an error of the division comes after both appends.
\<close>

definition lat_pid_control ::
  "lat_controller \<Rightarrow> real \<times> real \<times> real \<Rightarrow> waypoint \<Rightarrow> lat_controller \<times> (pyerror + pyfloat)" where
  "lat_pid_control c vehicle_location wp =
     (case bearing_error vehicle_location wp of
        Inl e \<Rightarrow> (c, Inl e)
      | Inr d \<Rightarrow>
          let c' = c\<lparr>lat_e_buffer := deque_append (lat_e_buffer c) d,
                     lat_error := lat_error c @ [d]\<rparr>
          in (case de_ie (lat_e_buffer c') (lat_dt c') of
                Inl e \<Rightarrow> (c', Inl e)
              | Inr (de, ie) \<Rightarrow>
                  (c', Inr (pid_output (lat_K_P c') (lat_K_D c') (lat_K_I c') d de ie
                              (lat_output_min c') (lat_output_max c')))))"

definition lat_run_step ::
  "lat_controller \<Rightarrow> real \<times> real \<times> real \<Rightarrow> waypoint \<Rightarrow> lat_controller \<times> (pyerror + pyfloat)" where
  "lat_run_step c vehicle_location wp = lat_pid_control c vehicle_location wp"


section \<open>The tracker\<close>

text \<open>
  \<^verbatim>\<open>VehiclePIDController\<close> keeps a reference to the list that \<^verbatim>\<open>set_traj\<close> was
  given, and \<^verbatim>\<open>reset\<close> clears that list in place.  The lists therefore live in a
  store, and the tracker holds an address.
\<close>

type_synonym addr = nat

record store =
  objs :: "addr \<Rightarrow> waypoint list"
  next_addr :: addr

text \<open>The list display \<^verbatim>\<open>[]\<close> creates a new, empty list object.\<close>

definition new_list :: "store \<Rightarrow> store \<times> addr" where
  "new_list h =
     (h\<lparr>objs := (objs h)(next_addr h := []), next_addr := Suc (next_addr h)\<rparr>, next_addr h)"

record vehicle_location =
  loc_x :: real
  loc_y :: real
  heading_angle :: real
  velocity :: real

record pid_args =
  arg_K_P :: real
  arg_K_I :: real
  arg_K_D :: real
  arg_output_max :: pyfloat
  arg_output_min :: pyfloat
  arg_dt :: real

record tracker =
  look_ahead :: real
  lon_controller :: lon_controller
  lat_controller :: lat_controller
  traj :: addr
  waypoint_index :: nat

definition default_args_lateral :: pid_args where
  "default_args_lateral =
     \<lparr>arg_K_P = 2, arg_K_I = 0, arg_K_D = 0.2,
      arg_output_max = Fin 1, arg_output_min = Fin (-1), arg_dt = 0.1\<rparr>"

definition default_args_longitudinal :: pid_args where
  "default_args_longitudinal =
     \<lparr>arg_K_P = 2, arg_K_I = 0, arg_K_D = 0.1,
      arg_output_max = Fin 1, arg_output_min = Fin 0, arg_dt = 0.1\<rparr>"

text \<open>
  \<^verbatim>\<open>__init__\<close>: a missing argument dictionary is replaced by the defaults, each
  dictionary is passed on by keyword.  The attribute \<^verbatim>\<open>goal\<close> is set to
  \<^verbatim>\<open>None\<close> and never read; it is left out.
\<close>

definition vpc_init ::
  "store \<Rightarrow> pid_args option \<Rightarrow> pid_args option \<Rightarrow> real \<Rightarrow> store \<times> tracker" where
  "vpc_init h args_lateral args_longitudinal la =
     (let al = (case args_lateral of None \<Rightarrow> default_args_lateral | Some a \<Rightarrow> a);
          ao = (case args_longitudinal of None \<Rightarrow> default_args_longitudinal | Some a \<Rightarrow> a);
          (h', a) = new_list h
      in (h', \<lparr>look_ahead = la,
               lon_controller = lon_init (arg_K_P ao) (arg_K_D ao) (arg_K_I ao)
                                  (arg_output_max ao) (arg_output_min ao) (arg_dt ao),
               lat_controller = lat_init (arg_K_P al) (arg_K_D al) (arg_K_I al)
                                  (arg_output_max al) (arg_output_min al) (arg_dt al),
               traj = a, waypoint_index = 0\<rparr>))"

text \<open>\<^verbatim>\<open>reset\<close>: \<^verbatim>\<open>self.traj.clear()\<close> empties the list object itself.\<close>

definition vpc_reset :: "store \<Rightarrow> tracker \<Rightarrow> store \<times> tracker" where
  "vpc_reset h t =
     (h\<lparr>objs := (objs h)(traj t := [])\<rparr>,
      t\<lparr>waypoint_index := 0,
        lon_controller := lon_reset (lon_controller t),
        lat_controller := lat_reset (lat_controller t)\<rparr>)"

text \<open>\<^verbatim>\<open>set_traj\<close> stores the reference it is given.\<close>

definition set_traj :: "store \<Rightarrow> tracker \<Rightarrow> addr \<Rightarrow> store \<times> tracker" where
  "set_traj h t a = (h, t\<lparr>traj := a, waypoint_index := 0\<rparr>)"

text \<open>
  Lines 62 to 67, the loop of \<^verbatim>\<open>run_step\<close>, as a function of the index it starts
  from: it leaves the loop at an index whose waypoint is farther than the look-ahead
  distance, and steps over every other one.
\<close>

function run_step_loop :: "waypoint list \<Rightarrow> real \<times> real \<Rightarrow> real \<Rightarrow> nat \<Rightarrow> nat" where
  "run_step_loop tr cur la i =
     (if int i < int (length tr) - 1 then
        (if np_norm2 (fst cur - wp_x (tr ! i), snd cur - wp_y (tr ! i)) > la then i
         else run_step_loop tr cur la (i + 1))
      else i)"
  by pat_completeness auto
termination
  by (relation "measure (\<lambda>(tr, cur, la, i). length tr - i)") auto

text \<open>
  \<^verbatim>\<open>run_step\<close>.  The index is written inside the loop, so it keeps the loop's value
  when a controller raises; it receives its last increment only after both controllers have
  returned.  Every read \<^verbatim>\<open>self.traj[self.waypoint_index]\<close> is below the length of
  the list: the method returns early otherwise.  The store is read, not written.
\<close>

definition run_step ::
  "store \<Rightarrow> tracker \<Rightarrow> vehicle_location \<Rightarrow> bool
     \<Rightarrow> store \<times> tracker \<times> (pyerror + pyfloat \<times> pyfloat)" where
  "run_step h t loc thro_as_speed =
     (let tr = objs h (traj t) in
      if int (waypoint_index t) \<ge> int (length tr) - 1 then (h, t, Inr (Fin 0, Fin 0))
      else
        let current_location = (loc_x loc, loc_y loc, heading_angle loc);
            current_speed = velocity loc;
            i = run_step_loop tr (loc_x loc, loc_y loc) (look_ahead t) (waypoint_index t);
            t1 = t\<lparr>waypoint_index := i\<rparr>;
            traj_point = tr ! i;
            target_speed = wp_target_speed (tr ! i)
        in case lon_run_step (lon_controller t1) current_speed target_speed of
             (lon', Inl e) \<Rightarrow> (h, t1\<lparr>lon_controller := lon'\<rparr>, Inl e)
           | (lon', Inr throttle) \<Rightarrow>
               let t2 = t1\<lparr>lon_controller := lon'\<rparr> in
               (case lat_run_step (lat_controller t2) current_location traj_point of
                  (lat', Inl e) \<Rightarrow> (h, t2\<lparr>lat_controller := lat'\<rparr>, Inl e)
                | (lat', Inr steering) \<Rightarrow>
                    (h, t2\<lparr>lat_controller := lat', waypoint_index := i + 1\<rparr>,
                     Inr (if thro_as_speed then Fin target_speed else throttle, steering))))"

text \<open>A sequence of control ticks; a tick that raises does not stop the host's loop here.\<close>

fun run_steps ::
  "store \<Rightarrow> tracker \<Rightarrow> (vehicle_location \<times> bool) list \<Rightarrow> store \<times> tracker" where
  "run_steps h t [] = (h, t)"
| "run_steps h t ((loc, flag) # rest) =
     (case run_step h t loc flag of (h', t', r) \<Rightarrow> run_steps h' t' rest)"

section \<open>The specification's wording, for comparison\<close>

text \<open>
  The specification words the loop of the tracker's step the other way round: the cursor
  is incremented while the waypoint under it is farther than the look-ahead radius.
\<close>

function spec_step_loop :: "waypoint list \<Rightarrow> real \<times> real \<Rightarrow> real \<Rightarrow> nat \<Rightarrow> nat" where
  "spec_step_loop tr cur la i =
     (if int i < int (length tr) - 1
         \<and> np_norm2 (fst cur - wp_x (tr ! i), snd cur - wp_y (tr ! i)) > la
      then spec_step_loop tr cur la (i + 1)
      else i)"
  by pat_completeness auto
termination
  by (relation "measure (\<lambda>(tr, cur, la, i). length tr - i)") auto

text \<open>
  The specification asks for a configuration operation that rejects an output range with
  \<open>output_min > output_max\<close> and a time step \<open>dt \<le> 0\<close>.
\<close>

datatype spec_signal = InvalidConfiguration

definition spec_configure ::
  "real \<Rightarrow> real \<Rightarrow> real \<Rightarrow> pyfloat \<Rightarrow> pyfloat \<Rightarrow> real \<Rightarrow> spec_signal + lon_controller" where
  "spec_configure K_P K_D K_I output_max output_min dt =
     (if fless output_max output_min \<or> dt \<le> 0 then Inl InvalidConfiguration
      else Inr (lon_init K_P K_D K_I output_max output_min dt))"

section \<open>Two sessions\<close>

text \<open>
  The trajectory of the specification's end-to-end scenario, and a trajectory of two
  waypoints one unit apart.
\<close>

definition scenario_traj :: "waypoint list" where
  "scenario_traj =
     [\<lparr>wp_x = 0, wp_y = 0, wp_heading = 0, wp_target_speed = 5\<rparr>,
      \<lparr>wp_x = 10, wp_y = 0, wp_heading = 0, wp_target_speed = 5\<rparr>,
      \<lparr>wp_x = 20, wp_y = 0, wp_heading = 0, wp_target_speed = 0\<rparr>]"

definition short_traj :: "waypoint list" where
  "short_traj =
     [\<lparr>wp_x = 0, wp_y = 0, wp_heading = 0, wp_target_speed = 5\<rparr>,
      \<lparr>wp_x = 1, wp_y = 0, wp_heading = 0, wp_target_speed = 5\<rparr>]"

text \<open>A store in which the caller's list lives at address 0.\<close>

definition caller_store :: "waypoint list \<Rightarrow> store" where
  "caller_store tr = \<lparr>objs = (\<lambda>a. if a = 0 then tr else []), next_addr = 1\<rparr>"

text \<open>
  \<^verbatim>\<open>c = VehiclePIDController(); c.set_traj(tr)\<close>: a tracker with the default gains
  and look-ahead 1, given the caller's list.
\<close>

definition session :: "waypoint list \<Rightarrow> store \<times> tracker" where
  "session tr = (case vpc_init (caller_store tr) None None 1 of (h, t) \<Rightarrow> set_traj h t 0)"

text \<open>The vehicle at rest at the origin, and at rest on the last waypoint of the short
  trajectory, heading along the x axis.\<close>

definition origin :: vehicle_location where
  "origin = \<lparr>loc_x = 0, loc_y = 0, heading_angle = 0, velocity = 0\<rparr>"

definition at_goal :: vehicle_location where
  "at_goal = \<lparr>loc_x = 1, loc_y = 0, heading_angle = 0, velocity = 0\<rparr>"


declare run_step_loop.simps [simp del]

declare spec_step_loop.simps [simp del]

section \<open>Rounding\<close>

lemma overflow_threshold_gt: "2 ^ 1023 < overflow_threshold"
proof -
  have "(2::real) ^ 1024 = 2 * 2 ^ 1023" by simp
  moreover have "(2::real) ^ 970 < 2 ^ 1023" by simp
  ultimately show ?thesis unfolding overflow_threshold_def by linarith
qed

lemma underflow_threshold_pos: "0 < underflow_threshold"
  by (simp add: underflow_threshold_def)

lemma underflow_threshold_lt: "underflow_threshold < 1 / 2 ^ 10"
  unfolding underflow_threshold_def by (simp add: field_simps)

lemma overflow_threshold_gt_small: "2 ^ 20 < overflow_threshold"
proof -
  have "(2::real) ^ 20 < 2 ^ 1023" by simp
  then show ?thesis using overflow_threshold_gt by linarith
qed


lemma round64_zero: "round64 0 = Fin 0"
  using overflow_threshold_gt underflow_threshold_pos
  by (simp add: round64_def)


lemma round64_mid:
  "underflow_threshold < \<bar>x\<bar> \<Longrightarrow> \<bar>x\<bar> < overflow_threshold \<Longrightarrow> round64 x = Fin x"
  by (auto simp: round64_def)

lemma round64_exact:
  "x = 0 \<or> 1 / 2 ^ 10 \<le> \<bar>x\<bar> \<and> \<bar>x\<bar> \<le> 2 ^ 20 \<Longrightarrow> round64 x = Fin x"
  using round64_zero round64_mid [of x] underflow_threshold_lt overflow_threshold_gt_small
  by auto


lemmas round64_eval = round64_def overflow_threshold_def underflow_threshold_def

lemma fmul_zero_left: "fmul (Fin 0) a = Fin 0 \<or> fmul (Fin 0) a = NaN"
  by (cases a) (simp_all add: inf_times_def round64_zero)

lemma fmul_zero_finite: "fmul (Fin 0) (Fin a) = Fin 0"
  by (simp add: round64_zero)






lemma fsub_self: "fsub (Fin x) (Fin x) = Fin 0"
  by (simp add: fsub_def round64_zero)


section \<open>The clip\<close>

lemma tracking_conv: "(int i < int n - 1) = (Suc i < n)"
  by auto

lemma finished_conv: "(int n - 1 \<le> int i) = (n \<le> Suc i)"
  by auto


lemma np_clip_NaN: "np_clip NaN lo hi = NaN"
  by (simp add: np_clip_def np_maximum_def np_minimum_def)


lemma np_clip_unit_cases:
  "np_clip q (Fin (-1)) (Fin 1) = NaN \<and> q = NaN \<or>
   (\<exists>c. np_clip q (Fin (-1)) (Fin 1) = Fin c \<and> -1 \<le> c \<and> c \<le> 1 \<and> q \<noteq> NaN)"
  by (cases q) (auto simp: np_clip_def np_maximum_def np_minimum_def)

text \<open>After the clip, \<^verbatim>\<open>math.acos\<close> has no argument left on which it raises.\<close>

lemma math_acos_clip: "\<exists>d. math_acos (np_clip q (Fin (-1)) (Fin 1)) = Inr d"
  using np_clip_unit_cases [of q] by auto

lemma math_acos_clip_NaN: "math_acos (np_clip NaN (Fin (-1)) (Fin 1)) = Inr NaN"
  by (simp add: np_clip_NaN)

section \<open>The estimates\<close>



lemma de_ie_zero_dt: "2 \<le> length buf \<Longrightarrow> de_ie buf 0 = Inl ZeroDivisionError"
  by (simp add: de_ie_def py_truediv_def)


lemma de_ie_error:
  "de_ie buf dt = Inl e \<Longrightarrow> e = ZeroDivisionError \<and> dt = 0 \<and> 2 \<le> length buf"
  by (auto simp: de_ie_def py_truediv_def split: if_splits sum.splits)

lemma de_ie_returns: "dt \<noteq> 0 \<Longrightarrow> \<exists>de ie. de_ie buf dt = Inr (de, ie)"
  by (auto simp: de_ie_def py_truediv_def split: if_splits sum.splits)

section \<open>The bearing\<close>

lemma bearing_error_never_raises: "\<exists>d. bearing_error loc wp = Inr d"
proof -
  obtain x y h where loc: "loc = (x, y, h)" by (cases loc)
  obtain d where "math_acos (np_clip
      (fdiv (np_dot (fsub (Fin (wp_x wp)) (Fin x), fsub (Fin (wp_y wp)) (Fin y), Fin 0)
                    (math_cos h, math_sin h, Fin 0))
            (fmul (np_norm3 (fsub (Fin (wp_x wp)) (Fin x), fsub (Fin (wp_y wp)) (Fin y), Fin 0))
                  (np_norm3 (math_cos h, math_sin h, Fin 0))))
      (Fin (-1)) (Fin 1)) = Inr d"
    using math_acos_clip by blast
  then show ?thesis by (simp add: loc bearing_error_def Let_def)
qed

lemma zero_or_NaN_add:
  "a = Fin 0 \<or> a = NaN \<Longrightarrow> b = Fin 0 \<or> b = NaN \<Longrightarrow> fadd a b = Fin 0 \<or> fadd a b = NaN"
  by (auto simp: round64_zero)

lemma np_dot_zero_left: "np_dot (Fin 0, Fin 0, Fin 0) v = Fin 0 \<or> np_dot (Fin 0, Fin 0, Fin 0) v = NaN"
proof -
  obtain v0 v1 v2 where v: "v = (v0, v1, v2)" by (cases v)
  show ?thesis
    unfolding v np_dot_def prod.case
    by (intro zero_or_NaN_add fmul_zero_left)
qed

lemma np_norm3_zero: "np_norm3 (Fin 0, Fin 0, Fin 0) = Fin 0"
  by (simp add: np_norm3_def np_dot_def round64_zero)

lemma fdiv_zero_or_NaN:
  "a = Fin 0 \<or> a = NaN \<Longrightarrow> b = Fin 0 \<or> b = NaN \<Longrightarrow> fdiv a b = NaN"
  by auto

lemma bearing_error_degenerate:
  assumes "wp_x wp = x" and "wp_y wp = y"
  shows "bearing_error (x, y, h) wp = Inr NaN"
proof -
  let ?v = "(math_cos h, math_sin h, Fin 0)"
  let ?w = "(Fin 0, Fin 0, Fin 0) :: vec3"
  have q: "fdiv (np_dot ?w ?v) (fmul (np_norm3 ?w) (np_norm3 ?v)) = NaN"
    using np_dot_zero_left [of ?v] fmul_zero_left [of "np_norm3 ?v"]
    by (intro fdiv_zero_or_NaN) (simp_all add: np_norm3_zero)
  show ?thesis
    using assms
    by (simp add: bearing_error_def Let_def fsub_self q np_clip_NaN)
qed

section \<open>The bounded deque\<close>




lemma deque_append_length_ge2: "d \<noteq> [] \<Longrightarrow> 2 \<le> length (deque_append d x)"
  by (cases d) (auto simp: deque_append_def Let_def maxlen_def)

lemma deque_append_singleton: "deque_append [] x = [x]"
  by (simp add: deque_append_def Let_def maxlen_def)


lemma deque_append_not_Nil: "deque_append d x \<noteq> []"
  by (cases d) (auto simp: deque_append_def Let_def maxlen_def)

lemma deque_append_short_iff: "length (deque_append d x) < 2 \<longleftrightarrow> d = []"
proof (cases "d = []")
  case True
  then show ?thesis by (simp add: deque_append_singleton)
next
  case False
  then show ?thesis using deque_append_length_ge2 [OF False, of x] by simp
qed

section \<open>One tick of each controller\<close>

lemma lon_buffer_step:
  "lon_error_buffer (fst (lon_run_step c cur tgt))
     = deque_append (lon_error_buffer c) (fsub (Fin tgt) (Fin cur))"
  by (simp add: lon_run_step_def lon_pid_control_def Let_def split: sum.splits prod.splits)

lemma lon_gains_step:
  "lon_K_P (fst (lon_run_step c cur tgt)) = lon_K_P c
   \<and> lon_K_D (fst (lon_run_step c cur tgt)) = lon_K_D c
   \<and> lon_K_I (fst (lon_run_step c cur tgt)) = lon_K_I c
   \<and> lon_dt (fst (lon_run_step c cur tgt)) = lon_dt c"
  by (simp add: lon_run_step_def lon_pid_control_def Let_def split: sum.splits prod.splits)

lemma lon_run_step_result:
  "snd (lon_run_step c cur tgt) =
     (case de_ie (deque_append (lon_error_buffer c) (fsub (Fin tgt) (Fin cur))) (lon_dt c) of
        Inl e \<Rightarrow> Inl e
      | Inr (de, ie) \<Rightarrow>
          Inr (pid_output (lon_K_P c) (lon_K_D c) (lon_K_I c) (fsub (Fin tgt) (Fin cur)) de ie
                 (lon_output_min c) (lon_output_max c)))"
  by (simp add: lon_run_step_def lon_pid_control_def Let_def split: sum.splits prod.splits)

lemma lat_run_step_unfold:
  "lat_run_step c loc wp =
     (case bearing_error loc wp of
        Inl e \<Rightarrow> (c, Inl e)
      | Inr d \<Rightarrow>
          (c\<lparr>lat_e_buffer := deque_append (lat_e_buffer c) d,
             lat_error := lat_error c @ [d]\<rparr>,
           case de_ie (deque_append (lat_e_buffer c) d) (lat_dt c) of
             Inl e \<Rightarrow> Inl e
           | Inr (de, ie) \<Rightarrow>
               Inr (pid_output (lat_K_P c) (lat_K_D c) (lat_K_I c) d de ie
                      (lat_output_min c) (lat_output_max c))))"
  by (simp add: lat_run_step_def lat_pid_control_def Let_def split: sum.splits prod.splits)

section \<open>The result of a step\<close>









section \<open>Sequences of steps\<close>

lemmas bearing_eval = bearing_error_def math_cos_def math_sin_def np_dot_def np_norm3_def
  np_cross_z_def fless_def




section \<open>Evaluating steps\<close>






lemmas lon_eval' = lon_init_def lon_run_step_def lon_pid_control_def Let_def deque_append_def
  maxlen_def de_ie_def py_truediv_def py_sum_def fsub_def pid_output_def pid_raw_def
  np_clip_def np_maximum_def np_minimum_def inf_times_def round64_exact

lemmas lat_eval' = lat_init_def lat_run_step_def lat_pid_control_def Let_def deque_append_def
  maxlen_def de_ie_def py_truediv_def py_sum_def fsub_def pid_output_def pid_raw_def
  np_clip_def np_maximum_def np_minimum_def inf_times_def round64_exact bearing_eval

lemma bearing_ahead:
  "bearing_error (0, 0, 0) \<lparr>wp_x = 1, wp_y = 0, wp_heading = 0, wp_target_speed = 5\<rparr>
     = Inr (Fin 0)"
  by (simp add: bearing_eval Let_def fsub_def np_clip_def np_maximum_def np_minimum_def
        round64_exact)







section \<open>The clamping law\<close>




section \<open>The history buffer and its estimates\<close>



text \<open>
  The claim gives the derivative estimate for any \<open>dt\<close>.  With \<open>dt = 0\<close> the second
  step of a controller pushes its sample, so that the buffer holds the two samples 1 and 3,
  and raises: there is no derivative estimate.
\<close>

theorem error_buffer_contract_counterexample:
  "lon_error_buffer (fst (lon_run_step (lon_init 1 1 1 PInf NInf 0) 0 1)) = [Fin 1]
   \<and> lon_run_step (fst (lon_run_step (lon_init 1 1 1 PInf NInf 0) 0 1)) 0 3
       = ((lon_init 1 1 1 PInf NInf 0)\<lparr>lon_error_buffer := [Fin 1, Fin 3]\<rparr>,
          Inl ZeroDivisionError)"
  by (simp add: lon_eval')

section \<open>The proportional controller\<close>




section \<open>The loop of the tracker\<close>

lemma loop_ge: "i \<le> run_step_loop tr cur la i"
proof (induction tr cur la i rule: run_step_loop.induct)
  case (1 tr cur la i)
  show ?case
  proof (cases "int i < int (length tr) - 1
                  \<and> \<not> np_norm2 (fst cur - wp_x (tr ! i), snd cur - wp_y (tr ! i)) > la")
    case True
    then have "i + 1 \<le> run_step_loop tr cur la (i + 1)" using "1.IH" by simp
    moreover have "run_step_loop tr cur la i = run_step_loop tr cur la (i + 1)"
      using True by (subst run_step_loop.simps) simp
    ultimately show ?thesis by simp
  next
    case False
    then have "run_step_loop tr cur la i = i"
      by (subst run_step_loop.simps) auto
    then show ?thesis by simp
  qed
qed

lemma loop_lt: "Suc i < length tr \<Longrightarrow> run_step_loop tr cur la i < length tr"
proof (induction tr cur la i rule: run_step_loop.induct)
  case (1 tr cur la i)
  show ?case
  proof (cases "np_norm2 (fst cur - wp_x (tr ! i), snd cur - wp_y (tr ! i)) > la")
    case True
    then have "run_step_loop tr cur la i = i"
      by (subst run_step_loop.simps) auto
    then show ?thesis using "1.prems" by simp
  next
    case False
    have eq: "run_step_loop tr cur la i = run_step_loop tr cur la (i + 1)"
      using False "1.prems" by (subst run_step_loop.simps) simp
    show ?thesis
    proof (cases "Suc (i + 1) < length tr")
      case True
      then show ?thesis using "1.IH" False "1.prems" eq by simp
    next
      case False
      then have "run_step_loop tr cur la (i + 1) = i + 1"
        by (subst run_step_loop.simps) auto
      then show ?thesis using eq "1.prems" by simp
    qed
  qed
qed

lemma loop_skipped:
  "i \<le> k \<Longrightarrow> k < run_step_loop tr cur la i
     \<Longrightarrow> np_norm2 (fst cur - wp_x (tr ! k), snd cur - wp_y (tr ! k)) \<le> la"
proof (induction tr cur la i rule: run_step_loop.induct)
  case (1 tr cur la i)
  show ?case
  proof (cases "int i < int (length tr) - 1
                  \<and> \<not> np_norm2 (fst cur - wp_x (tr ! i), snd cur - wp_y (tr ! i)) > la")
    case True
    have eq: "run_step_loop tr cur la i = run_step_loop tr cur la (i + 1)"
      using True by (subst run_step_loop.simps) simp
    show ?thesis
    proof (cases "k = i")
      case True
      then show ?thesis using \<open>int i < int (length tr) - 1
                  \<and> \<not> np_norm2 (fst cur - wp_x (tr ! i), snd cur - wp_y (tr ! i)) > la\<close> by simp
    next
      case False
      then have "i + 1 \<le> k" using "1.prems" by simp
      then show ?thesis using "1.IH" True "1.prems" eq by simp
    qed
  next
    case False
    then have "run_step_loop tr cur la i = i"
      by (subst run_step_loop.simps) auto
    then show ?thesis using "1.prems" by simp
  qed
qed

lemma loop_stop:
  "Suc (run_step_loop tr cur la i) < length tr
     \<Longrightarrow> np_norm2 (fst cur - wp_x (tr ! run_step_loop tr cur la i),
                     snd cur - wp_y (tr ! run_step_loop tr cur la i)) > la"
proof (induction tr cur la i rule: run_step_loop.induct)
  case (1 tr cur la i)
  show ?case
  proof (cases "int i < int (length tr) - 1
                  \<and> \<not> np_norm2 (fst cur - wp_x (tr ! i), snd cur - wp_y (tr ! i)) > la")
    case True
    have eq: "run_step_loop tr cur la i = run_step_loop tr cur la (i + 1)"
      using True by (subst run_step_loop.simps) simp
    show ?thesis using "1.IH" True "1.prems" eq by simp
  next
    case False
    then have eq: "run_step_loop tr cur la i = i"
      by (subst run_step_loop.simps) auto
    have "i \<le> run_step_loop tr cur la i" by (rule loop_ge)
    then show ?thesis using False "1.prems" eq by auto
  qed
qed

section \<open>One tick of the tracker\<close>

lemma run_step_finished:
  "length (objs h (traj t)) \<le> Suc (waypoint_index t)
     \<Longrightarrow> run_step h t loc f = (h, t, Inr (Fin 0, Fin 0))"
  by (simp add: run_step_def Let_def finished_conv)

lemma run_step_store: "fst (run_step h t loc f) = h"
  by (simp add: run_step_def Let_def split: prod.splits sum.splits)

lemma run_step_traj: "traj (fst (snd (run_step h t loc f))) = traj t"
  by (simp add: run_step_def Let_def split: prod.splits sum.splits)

lemma run_step_look_ahead: "look_ahead (fst (snd (run_step h t loc f))) = look_ahead t"
  by (simp add: run_step_def Let_def split: prod.splits sum.splits)

lemma run_step_index_cases:
  assumes "Suc (waypoint_index t) < length (objs h (traj t))"
  shows "waypoint_index (fst (snd (run_step h t loc f)))
           = run_step_loop (objs h (traj t)) (loc_x loc, loc_y loc) (look_ahead t) (waypoint_index t)
         \<or> waypoint_index (fst (snd (run_step h t loc f)))
           = Suc (run_step_loop (objs h (traj t)) (loc_x loc, loc_y loc) (look_ahead t) (waypoint_index t))"
  using assms by (simp add: run_step_def Let_def finished_conv split: prod.splits sum.splits)

lemma run_step_index_mono: "waypoint_index t \<le> waypoint_index (fst (snd (run_step h t loc f)))"
proof (cases "Suc (waypoint_index t) < length (objs h (traj t))")
  case True
  then show ?thesis
    using run_step_index_cases [OF True, of loc f]
      loop_ge [of "waypoint_index t" "objs h (traj t)" "(loc_x loc, loc_y loc)" "look_ahead t"]
    by auto
next
  case False
  then show ?thesis by (simp add: run_step_finished)
qed

lemma run_step_index_bound:
  assumes "waypoint_index t \<le> length (objs h (traj t))"
  shows "waypoint_index (fst (snd (run_step h t loc f))) \<le> length (objs h (traj t))"
proof (cases "Suc (waypoint_index t) < length (objs h (traj t))")
  case True
  then show ?thesis
    using run_step_index_cases [OF True, of loc f]
      loop_lt [OF True, of "(loc_x loc, loc_y loc)" "look_ahead t"]
    by auto
next
  case False
  then show ?thesis using assms by (simp add: run_step_finished)
qed

lemma run_step_returns:
  assumes tr: "Suc (waypoint_index t) < length (objs h (traj t))"
    and "lon_dt (lon_controller t) \<noteq> 0" and "lat_dt (lat_controller t) \<noteq> 0"
  shows "\<exists>thr st. snd (snd (run_step h t loc f)) = Inr (thr, st)
           \<and> waypoint_index (fst (snd (run_step h t loc f)))
             = Suc (run_step_loop (objs h (traj t)) (loc_x loc, loc_y loc) (look_ahead t) (waypoint_index t))"
proof -
  let ?j = "run_step_loop (objs h (traj t)) (loc_x loc, loc_y loc) (look_ahead t) (waypoint_index t)"
  let ?wp = "objs h (traj t) ! ?j"
  obtain de ie where 1: "de_ie (deque_append (lon_error_buffer (lon_controller t))
                            (fsub (Fin (wp_target_speed ?wp)) (Fin (velocity loc)))) (lon_dt (lon_controller t)) = Inr (de, ie)"
    using de_ie_returns assms(2) by blast
  obtain d where 2: "bearing_error (loc_x loc, loc_y loc, heading_angle loc) ?wp = Inr d"
    using bearing_error_never_raises by blast
  obtain de' ie' where 3: "de_ie (deque_append (lat_e_buffer (lat_controller t)) d) (lat_dt (lat_controller t)) = Inr (de', ie')"
    using de_ie_returns assms(3) by blast
  have lon: "snd (lon_run_step (lon_controller t) (velocity loc) (wp_target_speed ?wp)) = Inr (pid_output (lon_K_P (lon_controller t)) (lon_K_D (lon_controller t)) (lon_K_I (lon_controller t)) (fsub (Fin (wp_target_speed ?wp)) (Fin (velocity loc))) de ie
                 (lon_output_min (lon_controller t)) (lon_output_max (lon_controller t)))"
    using 1 by (simp add: lon_run_step_result)
  show ?thesis
    using tr lon 2 3
    by (auto simp: run_step_def Let_def finished_conv lat_run_step_unfold split: prod.splits sum.splits)
qed

lemma run_step_lon:
  assumes "Suc (waypoint_index t) < length (objs h (traj t))"
  shows "lon_controller (fst (snd (run_step h t loc f)))
           = fst (lon_run_step (lon_controller t) (velocity loc)
                   (wp_target_speed (objs h (traj t) !
                      run_step_loop (objs h (traj t)) (loc_x loc, loc_y loc) (look_ahead t)
                        (waypoint_index t))))"
  using assms by (simp add: run_step_def Let_def finished_conv split: prod.splits sum.splits)

lemma run_step_flag_state:
  "fst (snd (run_step h t loc True)) = fst (snd (run_step h t loc False))"
  by (simp add: run_step_def Let_def split: prod.splits sum.splits)

lemma run_step_flag_result:
  assumes "Suc (waypoint_index t) < length (objs h (traj t))"
  shows "snd (snd (run_step h t loc True)) =
           (case snd (snd (run_step h t loc False)) of
              Inl e \<Rightarrow> Inl e
            | Inr (throttle, steering) \<Rightarrow>
                Inr (Fin (wp_target_speed (objs h (traj t) !
                      run_step_loop (objs h (traj t)) (loc_x loc, loc_y loc) (look_ahead t)
                        (waypoint_index t))), steering))"
  using assms by (simp add: run_step_def Let_def finished_conv split: prod.splits sum.splits)

lemma run_steps_finished:
  "length (objs h (traj t)) \<le> Suc (waypoint_index t) \<Longrightarrow> run_steps h t ticks = (h, t)"
  by (induction ticks) (auto simp: run_step_finished)

lemma run_steps_inv:
  "waypoint_index t \<le> length (objs h (traj t)) \<Longrightarrow>
     fst (run_steps h t ticks) = h
     \<and> traj (snd (run_steps h t ticks)) = traj t
     \<and> waypoint_index t \<le> waypoint_index (snd (run_steps h t ticks))
     \<and> waypoint_index (snd (run_steps h t ticks)) \<le> length (objs h (traj t))"
proof (induction ticks arbitrary: t)
  case Nil
  then show ?case by simp
next
  case (Cons tick ticks)
  obtain loc f where tick: "tick = (loc, f)" by (cases tick)
  obtain h1 t1 r where step: "run_step h t loc f = (h1, t1, r)"
    by (cases "run_step h t loc f") auto
  have h1: "h1 = h" using run_step_store [of h t loc f] step by simp
  have tr: "traj t1 = traj t" using run_step_traj [of h t loc f] step by simp
  have b: "waypoint_index t1 \<le> length (objs h (traj t1))"
    using run_step_index_bound [OF Cons.prems, of loc f] step tr by simp
  have m: "waypoint_index t \<le> waypoint_index t1"
    using run_step_index_mono [of t h loc f] step by simp
  have eq: "run_steps h t (tick # ticks) = run_steps h t1 ticks"
    by (simp add: tick step h1)
  show ?case using Cons.IH [OF b] tr m unfolding eq by auto
qed

section \<open>The two sessions, tick by tick\<close>

lemma session_eval:
  "session tr =
     (\<lparr>objs = (\<lambda>a. if a = 0 then tr else [])(1 := []), next_addr = 2\<rparr>,
      \<lparr>look_ahead = 1,
       lon_controller = lon_init 2 (1/10) 0 (Fin 1) (Fin 0) (1/10),
       lat_controller = lat_init 2 (1/5) 0 (Fin 1) (Fin (-1)) (1/10),
       traj = 0, waypoint_index = 0\<rparr>)"
  by (simp add: session_def vpc_init_def caller_store_def new_list_def set_traj_def
        default_args_lateral_def default_args_longitudinal_def Let_def)

lemma short_first_tick:
  "run_step (fst (session short_traj)) (snd (session short_traj)) origin False
     = (fst (session short_traj),
        (snd (session short_traj))
          \<lparr>lon_controller := (lon_init 2 (1/10) 0 (Fin 1) (Fin 0) (1/10))\<lparr>lon_error_buffer := [Fin 5]\<rparr>,
           lat_controller := (lat_init 2 (1/5) 0 (Fin 1) (Fin (-1)) (1/10))\<lparr>lat_e_buffer := [Fin 0], lat_error := [Fin 0]\<rparr>,
           waypoint_index := 2\<rparr>,
        Inr (Fin 1, Fin 0))"
  by (simp add: session_eval short_traj_def origin_def run_step_def Let_def
        run_step_loop.simps np_norm2_def lon_eval' lat_eval')

lemma scenario_first_tick:
  "run_step (fst (session scenario_traj)) (snd (session scenario_traj)) origin True
     = (fst (session scenario_traj),
        (snd (session scenario_traj))
          \<lparr>lon_controller := (lon_init 2 (1/10) 0 (Fin 1) (Fin 0) (1/10))\<lparr>lon_error_buffer := [Fin 5]\<rparr>,
           lat_controller := (lat_init 2 (1/5) 0 (Fin 1) (Fin (-1)) (1/10))\<lparr>lat_e_buffer := [Fin 0], lat_error := [Fin 0]\<rparr>,
           waypoint_index := 2\<rparr>,
        Inr (Fin 5, Fin 0))"
  by (simp add: session_eval scenario_traj_def origin_def run_step_def Let_def
        run_step_loop.simps np_norm2_def lon_eval' lat_eval')

lemma goal_tick:
  "snd (snd (run_step (fst (session short_traj)) (snd (session short_traj)) at_goal False))
     = Inr (Fin 1, NaN)"
  by (simp add: session_eval short_traj_def at_goal_def run_step_def Let_def
        run_step_loop.simps np_norm2_def lon_eval' lat_run_step_unfold lat_init_def
        bearing_error_degenerate np_clip_NaN)

lemma scenario_loop: "run_step_loop scenario_traj (0, 0) 1 0 = 1"
  by (simp add: run_step_loop.simps scenario_traj_def np_norm2_def)

lemma lat_first_step_ahead:
  "lat_run_step (lat_init 2 (1/5) 0 (Fin 1) (Fin (-1)) (1/10)) (0, 0, 0)
      \<lparr>wp_x = 1, wp_y = 0, wp_heading = 0, wp_target_speed = 5\<rparr>
    = ((lat_init 2 (1/5) 0 (Fin 1) (Fin (-1)) (1/10))\<lparr>lat_e_buffer := [Fin 0], lat_error := [Fin 0]\<rparr>, Inr (Fin 0))"
  by (simp add: lat_eval')

section \<open>The look-ahead loop\<close>

text \<open>
  Claim C2, as amended.  In a step in the Tracking state the cursor is incremented while it
  is below \<open>len(trajectory) - 1\<close> and the waypoint under it is within the look-ahead radius
  of the vehicle (its distance does not exceed the radius).  The loop stops at the first
  waypoint from the cursor on whose distance exceeds the radius, or at the last index
  \<open>len(trajectory) - 1\<close>.  The waypoint at that index \<open>j\<close> is the one handed to the
  controllers, and the step leaves the cursor at \<open>j + 1\<close> when both controllers return
  (at \<open>j\<close> when one raises).
\<close>

theorem look_ahead_loop:
  assumes tracking: "int (waypoint_index t) < int (length (objs h (traj t))) - 1"
    and j: "j = run_step_loop (objs h (traj t)) (loc_x loc, loc_y loc) (look_ahead t)
                  (waypoint_index t)"
  shows "waypoint_index t \<le> j \<and> int j \<le> int (length (objs h (traj t))) - 1
   \<and> (\<forall>k. waypoint_index t \<le> k \<and> k < j \<longrightarrow>
          np_norm2 (loc_x loc - wp_x (objs h (traj t) ! k),
                    loc_y loc - wp_y (objs h (traj t) ! k)) \<le> look_ahead t)
   \<and> (int j < int (length (objs h (traj t))) - 1 \<longrightarrow>
          np_norm2 (loc_x loc - wp_x (objs h (traj t) ! j),
                    loc_y loc - wp_y (objs h (traj t) ! j)) > look_ahead t)
   \<and> (waypoint_index (fst (snd (run_step h t loc flag))) = j
        \<or> waypoint_index (fst (snd (run_step h t loc flag))) = j + 1)
   \<and> (lon_dt (lon_controller t) \<noteq> 0 \<and> lat_dt (lat_controller t) \<noteq> 0 \<longrightarrow>
        waypoint_index (fst (snd (run_step h t loc flag))) = j + 1)"
proof -
  from tracking have tr: "Suc (waypoint_index t) < length (objs h (traj t))"
    by (simp add: tracking_conv)
  have 1: "waypoint_index t \<le> j" unfolding j by (rule loop_ge)
  have 2: "int j \<le> int (length (objs h (traj t))) - 1"
    using loop_lt [OF tr, of "(loc_x loc, loc_y loc)" "look_ahead t"] unfolding j by simp
  have 3: "\<forall>k. waypoint_index t \<le> k \<and> k < j \<longrightarrow>
          np_norm2 (loc_x loc - wp_x (objs h (traj t) ! k),
                    loc_y loc - wp_y (objs h (traj t) ! k)) \<le> look_ahead t"
    using loop_skipped [of "waypoint_index t" _ "objs h (traj t)" "(loc_x loc, loc_y loc)" "look_ahead t"]
    unfolding j by simp
  have 4: "int j < int (length (objs h (traj t))) - 1 \<longrightarrow>
          np_norm2 (loc_x loc - wp_x (objs h (traj t) ! j),
                    loc_y loc - wp_y (objs h (traj t) ! j)) > look_ahead t"
    using loop_stop [of "objs h (traj t)" "(loc_x loc, loc_y loc)" "look_ahead t" "waypoint_index t"]
    unfolding j by (simp add: tracking_conv)
  have 5: "waypoint_index (fst (snd (run_step h t loc flag))) = j
        \<or> waypoint_index (fst (snd (run_step h t loc flag))) = j + 1"
    using run_step_index_cases [OF tr, of loc flag] unfolding j by simp
  have 6: "lon_dt (lon_controller t) \<noteq> 0 \<and> lat_dt (lat_controller t) \<noteq> 0 \<longrightarrow>
        waypoint_index (fst (snd (run_step h t loc flag))) = j + 1"
    using run_step_returns [OF tr, of loc flag] unfolding j by auto
  from 1 2 3 4 5 6 show ?thesis by blast
qed

text \<open>
  The scenario of the specification: the first waypoint is at distance 0, within the
  radius 1, and is stepped over; the second is at distance 10 and is selected.
\<close>

theorem look_ahead_loop_witness:
  "int (waypoint_index (snd (session scenario_traj)))
     < int (length (objs (fst (session scenario_traj)) (traj (snd (session scenario_traj))))) - 1
   \<and> run_step_loop scenario_traj (0, 0) 1 0 = 1
   \<and> np_norm2 (0 - wp_x (scenario_traj ! 0), 0 - wp_y (scenario_traj ! 0)) \<le> 1
   \<and> np_norm2 (0 - wp_x (scenario_traj ! 1), 0 - wp_y (scenario_traj ! 1)) > 1
   \<and> waypoint_index (fst (snd (run_step (fst (session scenario_traj))
        (snd (session scenario_traj)) origin False))) = 2"
proof -
  have tr: "int (waypoint_index (snd (session scenario_traj)))
     < int (length (objs (fst (session scenario_traj)) (traj (snd (session scenario_traj))))) - 1"
    by (simp add: session_eval scenario_traj_def)
  have j: "1 = run_step_loop (objs (fst (session scenario_traj)) (traj (snd (session scenario_traj))))
                 (loc_x origin, loc_y origin) (look_ahead (snd (session scenario_traj)))
                 (waypoint_index (snd (session scenario_traj)))"
    by (simp add: session_eval origin_def scenario_loop)
  have dt: "lon_dt (lon_controller (snd (session scenario_traj))) \<noteq> 0
            \<and> lat_dt (lat_controller (snd (session scenario_traj))) \<noteq> 0"
    by (simp add: session_eval lon_init_def lat_init_def)
  have k: "(0::nat) \<le> 0 \<and> (0::nat) < 1" by simp
  show ?thesis
    using look_ahead_loop [OF tr j, of False] tr dt k scenario_loop
    by (simp add: session_eval origin_def scenario_traj_def)
qed

text \<open>
  The loop as the claim words it stays at index 0 in that scenario, the first waypoint whose
  distance does not exceed the radius; the code goes to index 1, whose distance exceeds it.
\<close>

theorem look_ahead_loop_counterexample:
  "run_step_loop scenario_traj (0, 0) 1 0 = 1
   \<and> spec_step_loop scenario_traj (0, 0) 1 0 = 0
   \<and> np_norm2 (0 - wp_x (scenario_traj ! 0), 0 - wp_y (scenario_traj ! 0)) \<le> 1
   \<and> np_norm2 (0 - wp_x (scenario_traj ! 1), 0 - wp_y (scenario_traj ! 1)) > 1
   \<and> run_step_loop scenario_traj (0, 0) 1 0 \<noteq> spec_step_loop scenario_traj (0, 0) 1 0"
  by (simp add: run_step_loop.simps spec_step_loop.simps scenario_traj_def np_norm2_def)

section \<open>The cursor\<close>

text \<open>
  Claim C3, as amended.  After \<^verbatim>\<open>set_traj\<close> and any sequence of steps, the store and
  the trajectory reference are the ones \<^verbatim>\<open>set_traj\<close> was given, the cursor lies in
  \<open>[0, len(trajectory)]\<close>, both ends included, and a further step does not decrease it
  and keeps it in that range.  Once the cursor has reached \<open>len(trajectory) - 1\<close> every
  further step returns \<open>(0.0, 0.0)\<close> and leaves the tracker as it is, so the cursor stays
  where it is.
\<close>

theorem cursor_invariant:
  assumes run: "run_steps (fst (set_traj h t a)) (snd (set_traj h t a)) ticks = (h', t')"
  shows "h' = h \<and> traj t' = a
   \<and> waypoint_index t' \<le> length (objs h a)
   \<and> waypoint_index t' \<le> waypoint_index (fst (snd (run_step h' t' loc flag)))
   \<and> waypoint_index (fst (snd (run_step h' t' loc flag))) \<le> length (objs h a)
   \<and> (int (length (objs h a)) - 1 \<le> int (waypoint_index t')
       \<longrightarrow> run_step h' t' loc flag = (h', t', Inr (Fin 0, Fin 0))
           \<and> run_steps h' t' later = (h', t'))"
proof -
  let ?t0 = "t\<lparr>traj := a, waypoint_index := 0\<rparr>"
  have s: "set_traj h t a = (h, ?t0)" by (simp add: set_traj_def)
  have 0: "waypoint_index ?t0 \<le> length (objs h (traj ?t0))" by simp
  have inv: "h' = h \<and> traj t' = a \<and> waypoint_index t' \<le> length (objs h a)"
    using run_steps_inv [OF 0, of ticks] run unfolding s by simp
  then have b: "waypoint_index t' \<le> length (objs h' (traj t'))" by simp
  have m: "waypoint_index t' \<le> waypoint_index (fst (snd (run_step h' t' loc flag)))"
    by (rule run_step_index_mono)
  have b': "waypoint_index (fst (snd (run_step h' t' loc flag))) \<le> length (objs h a)"
    using run_step_index_bound [OF b, of loc flag] inv by simp
  have fin: "int (length (objs h a)) - 1 \<le> int (waypoint_index t')
       \<longrightarrow> run_step h' t' loc flag = (h', t', Inr (Fin 0, Fin 0))
           \<and> run_steps h' t' later = (h', t')"
    using inv by (simp add: finished_conv run_step_finished run_steps_finished)
  show ?thesis using inv m b' fin by simp
qed

text \<open>
  The short trajectory, one step from the origin: the cursor is at 2, beyond
  \<open>len(trajectory) - 1 = 1\<close>, and the next step returns \<open>(0.0, 0.0)\<close>.
\<close>

theorem cursor_invariant_witness:
  "run_steps (fst (set_traj (fst (session short_traj)) (snd (session short_traj)) 0))
      (snd (set_traj (fst (session short_traj)) (snd (session short_traj)) 0)) [(origin, False)]
     = (fst (session short_traj),
        fst (snd (run_step (fst (session short_traj)) (snd (session short_traj)) origin False)))
   \<and> int (length (objs (fst (session short_traj)) 0)) - 1
       \<le> int (waypoint_index (fst (snd (run_step (fst (session short_traj)) (snd (session short_traj)) origin False))))
   \<and> snd (snd (run_step (fst (session short_traj))
        (fst (snd (run_step (fst (session short_traj)) (snd (session short_traj)) origin False)))
        origin False)) = Inr (Fin 0, Fin 0)"
proof -
  have s: "set_traj (fst (session short_traj)) (snd (session short_traj)) 0 = session short_traj"
    by (simp add: session_eval set_traj_def)
  have r: "run_steps (fst (set_traj (fst (session short_traj)) (snd (session short_traj)) 0))
      (snd (set_traj (fst (session short_traj)) (snd (session short_traj)) 0)) [(origin, False)]
     = (fst (session short_traj),
        fst (snd (run_step (fst (session short_traj)) (snd (session short_traj)) origin False)))"
    unfolding s by (simp add: short_first_tick)
  have l: "int (length (objs (fst (session short_traj)) 0)) - 1
       \<le> int (waypoint_index (fst (snd (run_step (fst (session short_traj)) (snd (session short_traj)) origin False))))"
    by (simp add: short_first_tick) (simp add: session_eval short_traj_def)
  show ?thesis
    using cursor_invariant [OF r, of origin False "[]"] r l by simp
qed

text \<open>
  The same step refutes the range \<open>[0, len(trajectory))\<close> of the claim: the first waypoint
  is within the look-ahead radius, the loop ends at the last index 1, and the increment
  after the controllers leaves the cursor at 2, the length of the trajectory.
\<close>

theorem cursor_invariant_counterexample:
  "waypoint_index (fst (snd (run_step (fst (session short_traj)) (snd (session short_traj)) origin False))) = 2
   \<and> length (objs (fst (session short_traj)) (traj (snd (session short_traj)))) = 2
   \<and> \<not> waypoint_index (fst (snd (run_step (fst (session short_traj))
            (snd (session short_traj)) origin False)))
         < length (objs (fst (session short_traj)) (traj (snd (session short_traj))))"
  by (simp add: short_first_tick) (simp add: session_eval short_traj_def)

section \<open>The target at the position of the vehicle\<close>

text \<open>
  Claim C4 asks for a neutral steering value 0 and a flag when the target coincides with
  the position of the vehicle.  The code has no such guard: the quotient is numpy's
  \<open>0 / 0\<close>, which is NaN, and NaN passes the clip, \<^verbatim>\<open>math.acos\<close> and the final clip.
  On a fresh lateral controller with the tracker's default gains the step returns NaN and
  stores NaN in the buffer and in the log; the next step, on a target straight ahead,
  returns NaN again, through the sum over the buffer.  The tracker reaches this input when
  the vehicle stands on the last waypoint: the steering of that tick is NaN.
\<close>

theorem indeterminate_bearing_propagates:
  "lat_run_step (lat_init 2 (1/5) 0 (Fin 1) (Fin (-1)) (1/10)) (0, 0, 0)
      \<lparr>wp_x = 0, wp_y = 0, wp_heading = 0, wp_target_speed = 5\<rparr>
    = ((lat_init 2 (1/5) 0 (Fin 1) (Fin (-1)) (1/10))
         \<lparr>lat_e_buffer := [NaN], lat_error := [NaN]\<rparr>, Inr NaN)
   \<and> snd (lat_run_step
            ((lat_init 2 (1/5) 0 (Fin 1) (Fin (-1)) (1/10))
               \<lparr>lat_e_buffer := [NaN], lat_error := [NaN]\<rparr>)
            (0, 0, 0) \<lparr>wp_x = 1, wp_y = 0, wp_heading = 0, wp_target_speed = 5\<rparr>) = Inr NaN
   \<and> snd (snd (run_step (fst (session short_traj)) (snd (session short_traj)) at_goal False))
       = Inr (Fin 1, NaN)"
proof -
  have 1: "lat_run_step (lat_init 2 (1/5) 0 (Fin 1) (Fin (-1)) (1/10)) (0, 0, 0)
      \<lparr>wp_x = 0, wp_y = 0, wp_heading = 0, wp_target_speed = 5\<rparr>
    = ((lat_init 2 (1/5) 0 (Fin 1) (Fin (-1)) (1/10))
         \<lparr>lat_e_buffer := [NaN], lat_error := [NaN]\<rparr>, Inr NaN)"
    by (simp add: lat_run_step_unfold bearing_error_degenerate lat_init_def deque_append_def
          maxlen_def de_ie_def pid_output_def pid_raw_def np_clip_NaN)
  have 2: "snd (lat_run_step
            ((lat_init 2 (1/5) 0 (Fin 1) (Fin (-1)) (1/10))
               \<lparr>lat_e_buffer := [NaN], lat_error := [NaN]\<rparr>)
            (0, 0, 0) \<lparr>wp_x = 1, wp_y = 0, wp_heading = 0, wp_target_speed = 5\<rparr>) = Inr NaN"
    by (simp add: lat_run_step_unfold bearing_ahead lat_init_def deque_append_def
          maxlen_def de_ie_def py_truediv_def py_sum_def fsub_def pid_output_def pid_raw_def
          np_clip_NaN round64_exact)
  from 1 2 show ?thesis by (simp add: goal_tick)
qed

section \<open>Configuration\<close>

text \<open>
  Claim C5, as amended.  The constructors and \<^verbatim>\<open>change_parameters\<close> of both
  controllers store whatever they are given and signal nothing, also for
  \<open>output_min > output_max\<close> and for \<open>dt \<le> 0\<close>.  A zero \<open>dt\<close> shows at a control tick:
  the first step on a buffer that already holds a sample raises
  \<^verbatim>\<open>ZeroDivisionError\<close>.
\<close>

theorem configuration_is_unchecked:
  "lon_init K_P K_D K_I output_max output_min dt =
     \<lparr>lon_K_P = K_P, lon_K_D = K_D, lon_K_I = K_I, lon_output_max = output_max,
      lon_output_min = output_min, lon_dt = dt, lon_error_buffer = []\<rparr>
   \<and> lat_init K_P K_D K_I output_max output_min dt =
     \<lparr>lat_K_P = K_P, lat_K_D = K_D, lat_K_I = K_I, lat_output_max = output_max,
      lat_output_min = output_min, lat_dt = dt, lat_e_buffer = [], lat_error = []\<rparr>
   \<and> lon_change_parameters c K_P K_I K_D dt
       = c\<lparr>lon_K_P := K_P, lon_K_I := K_I, lon_K_D := K_D, lon_dt := dt\<rparr>
   \<and> lat_change_parameters c' K_P K_I K_D dt
       = c'\<lparr>lat_K_P := K_P, lat_K_I := K_I, lat_K_D := K_D, lat_dt := dt\<rparr>
   \<and> (lon_error_buffer c \<noteq> [] \<longrightarrow>
        snd (lon_run_step (lon_change_parameters c K_P K_I K_D 0) cur tgt)
          = Inl ZeroDivisionError)
   \<and> (lat_e_buffer c' \<noteq> [] \<longrightarrow>
        snd (lat_run_step (lat_change_parameters c' K_P K_I K_D 0) loc wp)
          = Inl ZeroDivisionError)"
proof -
  have 1: "lon_error_buffer c \<noteq> [] \<longrightarrow>
        snd (lon_run_step (lon_change_parameters c K_P K_I K_D 0) cur tgt)
          = Inl ZeroDivisionError"
    by (simp add: lon_run_step_result lon_change_parameters_def de_ie_zero_dt
          deque_append_length_ge2)
  have 2: "lat_e_buffer c' \<noteq> [] \<longrightarrow>
        snd (lat_run_step (lat_change_parameters c' K_P K_I K_D 0) loc wp)
          = Inl ZeroDivisionError"
    using bearing_error_never_raises [of loc wp]
    by (auto simp: lat_run_step_unfold lat_change_parameters_def de_ie_zero_dt
          deque_append_length_ge2)
  show ?thesis
    using 1 2 by (simp add: lon_init_def lat_init_def lon_change_parameters_def
        lat_change_parameters_def)
qed

theorem configuration_is_unchecked_witness:
  "lon_error_buffer ((lon_init 1 0 0 (Fin 1) (Fin 0) (1/10))\<lparr>lon_error_buffer := [Fin 1]\<rparr>) \<noteq> []
   \<and> snd (lon_run_step
       (lon_change_parameters ((lon_init 1 0 0 (Fin 1) (Fin 0) (1/10))\<lparr>lon_error_buffer := [Fin 1]\<rparr>) 1 0 0 0)
       0 1) = Inl ZeroDivisionError
   \<and> lat_e_buffer ((lat_init 1 0 0 (Fin 1) (Fin (-1)) (1/10))\<lparr>lat_e_buffer := [Fin 1]\<rparr>) \<noteq> []
   \<and> snd (lat_run_step
       (lat_change_parameters ((lat_init 1 0 0 (Fin 1) (Fin (-1)) (1/10))\<lparr>lat_e_buffer := [Fin 1]\<rparr>) 1 0 0 0)
       (0, 0, 0) \<lparr>wp_x = 1, wp_y = 0, wp_heading = 0, wp_target_speed = 5\<rparr>) = Inl ZeroDivisionError"
proof -
  have a: "lon_error_buffer
             ((lon_init 1 0 0 (Fin 1) (Fin 0) (1/10))\<lparr>lon_error_buffer := [Fin 1]\<rparr>) \<noteq> []"
    by simp
  have b: "lat_e_buffer
             ((lat_init 1 0 0 (Fin 1) (Fin (-1)) (1/10))\<lparr>lat_e_buffer := [Fin 1]\<rparr>) \<noteq> []"
    by simp
  show ?thesis
    using configuration_is_unchecked
      [of 1 0 0 "Fin 1" "Fin 0" 0
          "(lon_init 1 0 0 (Fin 1) (Fin 0) (1/10))\<lparr>lon_error_buffer := [Fin 1]\<rparr>"
          "(lat_init 1 0 0 (Fin 1) (Fin (-1)) (1/10))\<lparr>lat_e_buffer := [Fin 1]\<rparr>"
          0 1 "(0, 0, 0)" "\<lparr>wp_x = 1, wp_y = 0, wp_heading = 0, wp_target_speed = 5\<rparr>"]
      a b
    by blast
qed

text \<open>
  The configuration operation of the specification rejects the range \<open>[1, 0]\<close> with
  \<open>dt = 0\<close>.  The constructor stores it: the first tick returns the clipped value 0, the
  second tick raises.
\<close>

theorem configuration_is_unchecked_counterexample:
  "spec_configure 1 0 0 (Fin 0) (Fin 1) 0 = Inl InvalidConfiguration
   \<and> lon_output_min (lon_init 1 0 0 (Fin 0) (Fin 1) 0) = Fin 1
   \<and> lon_output_max (lon_init 1 0 0 (Fin 0) (Fin 1) 0) = Fin 0
   \<and> lon_dt (lon_init 1 0 0 (Fin 0) (Fin 1) 0) = 0
   \<and> snd (lon_run_step (lon_init 1 0 0 (Fin 0) (Fin 1) 0) 0 1) = Inr (Fin 0)
   \<and> snd (lon_run_step (fst (lon_run_step (lon_init 1 0 0 (Fin 0) (Fin 1) 0) 0 1)) 0 1)
       = Inl ZeroDivisionError"
  by (simp add: spec_configure_def fless_def lon_eval')

section \<open>Resetting the lateral controller\<close>

text \<open>
  Claim C8, as amended.  \<^verbatim>\<open>reset\<close> of the lateral controller empties the error
  history buffer and leaves the gains, the output range, the time step and the diagnostic
  log \<^verbatim>\<open>lat_error\<close> as they are.
\<close>

theorem lateral_reset_frame:
  "lat_e_buffer (lat_reset c) = []
   \<and> lat_error (lat_reset c) = lat_error c
   \<and> lat_K_P (lat_reset c) = lat_K_P c
   \<and> lat_K_I (lat_reset c) = lat_K_I c
   \<and> lat_K_D (lat_reset c) = lat_K_D c
   \<and> lat_output_min (lat_reset c) = lat_output_min c
   \<and> lat_output_max (lat_reset c) = lat_output_max c
   \<and> lat_dt (lat_reset c) = lat_dt c"
  by (simp add: lat_reset_def)

text \<open>The log of one step is still there after the reset.\<close>

theorem lateral_reset_frame_counterexample:
  "lat_error (lat_reset (fst (lat_run_step (lat_init 2 (1/5) 0 (Fin 1) (Fin (-1)) (1/10)) (0, 0, 0)
      \<lparr>wp_x = 1, wp_y = 0, wp_heading = 0, wp_target_speed = 5\<rparr>))) = [Fin 0]
   \<and> lat_error (lat_reset (fst (lat_run_step (lat_init 2 (1/5) 0 (Fin 1) (Fin (-1)) (1/10))
      (0, 0, 0) \<lparr>wp_x = 1, wp_y = 0, wp_heading = 0, wp_target_speed = 5\<rparr>))) \<noteq> []"
  by (simp add: lat_first_step_ahead lat_reset_def)

section \<open>The trajectory object\<close>

text \<open>
  Claim C9, as amended.  \<^verbatim>\<open>set_traj\<close> replaces the reference to the trajectory and
  writes no list; a step writes no list and keeps the reference.  \<^verbatim>\<open>reset\<close> keeps
  the reference and empties, in place, the list it refers to, which is the list the caller
  supplied; it writes no other list.
\<close>

theorem trajectory_store_frame:
  "fst (set_traj h t a) = h
   \<and> traj (snd (set_traj h t a)) = a
   \<and> fst (run_step h t loc flag) = h
   \<and> traj (fst (snd (run_step h t loc flag))) = traj t
   \<and> objs (fst (vpc_reset h t)) = (objs h)(traj t := [])
   \<and> traj (snd (vpc_reset h t)) = traj t"
  by (simp add: set_traj_def vpc_reset_def run_step_store run_step_traj)

text \<open>
  The caller's list of two waypoints at address 0 is empty after \<^verbatim>\<open>reset\<close>.
\<close>

theorem trajectory_store_frame_counterexample:
  "objs (fst (session short_traj)) 0 = short_traj
   \<and> traj (snd (session short_traj)) = 0
   \<and> objs (fst (vpc_reset (fst (session short_traj)) (snd (session short_traj)))) 0 = []
   \<and> short_traj \<noteq> []"
  by (simp add: session_eval vpc_reset_def short_traj_def)

section \<open>Throttle as target speed\<close>

text \<open>
  Claim C10.  In the Tracking state, let \<open>wp\<close> be the waypoint the loop selects.  With the
  flag \<^verbatim>\<open>thro_as_speed\<close> the step returns what it returns without the flag, except
  that the throttle is the target speed of \<open>wp\<close>; it leaves the same tracker and the same
  store behind as without the flag.  The longitudinal controller has run: the tracker holds
  the controller that the longitudinal step on \<open>(velocity, target_speed)\<close> leaves behind,
  and its buffer has received the sample \<open>target_speed - velocity\<close>.  When neither time
  step is zero the step returns, with the target speed as throttle.
\<close>

theorem throttle_override:
  assumes tracking: "int (waypoint_index t) < int (length (objs h (traj t))) - 1"
    and wp: "wp = objs h (traj t) !
                    run_step_loop (objs h (traj t)) (loc_x loc, loc_y loc) (look_ahead t)
                      (waypoint_index t)"
  shows "snd (snd (run_step h t loc True)) =
           (case snd (snd (run_step h t loc False)) of
              Inl e \<Rightarrow> Inl e
            | Inr (throttle, steering) \<Rightarrow> Inr (Fin (wp_target_speed wp), steering))
   \<and> fst (snd (run_step h t loc True)) = fst (snd (run_step h t loc False))
   \<and> fst (run_step h t loc True) = fst (run_step h t loc False)
   \<and> lon_controller (fst (snd (run_step h t loc True)))
       = fst (lon_run_step (lon_controller t) (velocity loc) (wp_target_speed wp))
   \<and> lon_error_buffer (lon_controller (fst (snd (run_step h t loc True))))
       = deque_append (lon_error_buffer (lon_controller t))
           (fsub (Fin (wp_target_speed wp)) (Fin (velocity loc)))
   \<and> (lon_dt (lon_controller t) \<noteq> 0 \<and> lat_dt (lat_controller t) \<noteq> 0 \<longrightarrow>
        (\<exists>steering. snd (snd (run_step h t loc True))
                      = Inr (Fin (wp_target_speed wp), steering)))"
proof -
  from tracking have tr: "Suc (waypoint_index t) < length (objs h (traj t))"
    by (simp add: tracking_conv)
  have 1: "snd (snd (run_step h t loc True)) =
           (case snd (snd (run_step h t loc False)) of
              Inl e \<Rightarrow> Inl e
            | Inr (throttle, steering) \<Rightarrow> Inr (Fin (wp_target_speed wp), steering))"
    unfolding wp by (rule run_step_flag_result [OF tr])
  have 2: "fst (snd (run_step h t loc True)) = fst (snd (run_step h t loc False))"
    by (rule run_step_flag_state)
  have 3: "fst (run_step h t loc True) = fst (run_step h t loc False)"
    by (simp add: run_step_store)
  have 4: "lon_controller (fst (snd (run_step h t loc True)))
       = fst (lon_run_step (lon_controller t) (velocity loc) (wp_target_speed wp))"
    unfolding wp by (rule run_step_lon [OF tr])
  have 5: "lon_error_buffer (lon_controller (fst (snd (run_step h t loc True))))
       = deque_append (lon_error_buffer (lon_controller t))
           (fsub (Fin (wp_target_speed wp)) (Fin (velocity loc)))"
    unfolding 4 by (rule lon_buffer_step)
  have 6: "lon_dt (lon_controller t) \<noteq> 0 \<and> lat_dt (lat_controller t) \<noteq> 0 \<longrightarrow>
        (\<exists>steering. snd (snd (run_step h t loc True))
                      = Inr (Fin (wp_target_speed wp), steering))"
  proof
    assume "lon_dt (lon_controller t) \<noteq> 0 \<and> lat_dt (lat_controller t) \<noteq> 0"
    then obtain thr st where "snd (snd (run_step h t loc False)) = Inr (thr, st)"
      using run_step_returns [OF tr, of loc False] by blast
    then show "\<exists>steering. snd (snd (run_step h t loc True))
                      = Inr (Fin (wp_target_speed wp), steering)"
      unfolding 1 by simp
  qed
  from 1 2 3 4 5 6 show ?thesis by blast
qed

text \<open>
  The scenario of the specification with the flag: the selected waypoint has the target
  speed 5, the step returns the throttle 5, and the buffer holds the sample \<open>5 - 0\<close>.
\<close>

theorem throttle_override_witness:
  "int (waypoint_index (snd (session scenario_traj)))
     < int (length (objs (fst (session scenario_traj)) (traj (snd (session scenario_traj))))) - 1
   \<and> lon_dt (lon_controller (snd (session scenario_traj))) \<noteq> 0
   \<and> lat_dt (lat_controller (snd (session scenario_traj))) \<noteq> 0
   \<and> snd (snd (run_step (fst (session scenario_traj)) (snd (session scenario_traj))
              origin True)) = Inr (Fin 5, Fin 0)
   \<and> lon_error_buffer (lon_controller (fst (snd (run_step (fst (session scenario_traj))
        (snd (session scenario_traj)) origin True)))) = [Fin 5]"
proof -
  have tr: "int (waypoint_index (snd (session scenario_traj)))
     < int (length (objs (fst (session scenario_traj)) (traj (snd (session scenario_traj))))) - 1"
    by (simp add: session_eval scenario_traj_def)
  have wp: "scenario_traj ! 1
      = objs (fst (session scenario_traj)) (traj (snd (session scenario_traj))) !
          run_step_loop (objs (fst (session scenario_traj)) (traj (snd (session scenario_traj))))
            (loc_x origin, loc_y origin) (look_ahead (snd (session scenario_traj)))
            (waypoint_index (snd (session scenario_traj)))"
    by (simp add: session_eval origin_def scenario_loop)
  have dt: "lon_dt (lon_controller (snd (session scenario_traj))) \<noteq> 0
            \<and> lat_dt (lat_controller (snd (session scenario_traj))) \<noteq> 0"
    by (simp add: session_eval lon_init_def lat_init_def)
  have r: "snd (snd (run_step (fst (session scenario_traj)) (snd (session scenario_traj))
              origin True)) = Inr (Fin 5, Fin 0)"
    by (simp add: scenario_first_tick)
  have b: "lon_error_buffer (lon_controller (fst (snd (run_step (fst (session scenario_traj))
        (snd (session scenario_traj)) origin True)))) = [Fin 5]"
    by (simp add: scenario_first_tick)
  show ?thesis
    using throttle_override [OF tr wp] tr dt r b by blast
qed

end
